theory Spec2Isabelle
  imports Complex_Main "HOL-Library.Char_ord" "HOL-Library.List_Lexorder"
    "HOL-Library.Code_Target_Numeral"
begin

section \<open>Element trees\<close>

text \<open>
  The extractor works on \<^verbatim>\<open>xml.etree.ElementTree\<close> elements: a tag, an attribute
  dictionary, an optional text and the ordered children. Tags and attribute keys are
  written with the prefixes of the extractor's namespace table (\<open>p:sp\<close> for
  \<open>{http://schemas.openxmlformats.org/presentationml/2006/main}sp\<close>, \<open>r:id\<close> for the
  relationship id attribute, and so on). Strings are lists of 8-bit characters, read as
  the code points below 256.
\<close>

datatype xml =
  Element (tag: string) (attrib: "(string \<times> string) list") (text_of: "string option")
    (children: "xml list")

text \<open>\<^verbatim>\<open>elem.iter()\<close>: the element and all its descendants, in document order.\<close>

fun iter :: "xml \<Rightarrow> xml list" where
  "iter (Element t a x cs) = Element t a x cs # concat (map iter cs)"

text \<open>
  The path \<^verbatim>\<open>.//tag\<close> of \<^verbatim>\<open>findall\<close> and \<^verbatim>\<open>find\<close>: every descendant at any
  depth below the element (the element itself excluded) that carries the tag, in
  document order; \<^verbatim>\<open>find\<close> returns the first one or \<^verbatim>\<open>None\<close>.
\<close>

definition descendants :: "xml \<Rightarrow> xml list" where
  "descendants e = concat (map iter (children e))"

definition findall :: "string \<Rightarrow> xml \<Rightarrow> xml list" where
  "findall t e = filter (\<lambda>d. tag d = t) (descendants e)"

definition find_elem :: "string \<Rightarrow> xml \<Rightarrow> xml option" where
  "find_elem t e = (case findall t e of [] \<Rightarrow> None | d # _ \<Rightarrow> Some d)"

text \<open>\<^verbatim>\<open>elem.get(key)\<close> and \<^verbatim>\<open>elem.get(key, default)\<close>.\<close>

definition get_opt :: "xml \<Rightarrow> string \<Rightarrow> string option" where
  "get_opt e k = map_of (attrib e) k"

definition get_attr :: "xml \<Rightarrow> string \<Rightarrow> string \<Rightarrow> string" where
  "get_attr e k d = (case get_opt e k of None \<Rightarrow> d | Some v \<Rightarrow> v)"

section \<open>Strings of the Python library\<close>

definition startswith :: "string \<Rightarrow> string \<Rightarrow> bool" where
  "startswith s p = (take (length p) s = p)"

text \<open>
  \<^verbatim>\<open>str.upper()\<close> on the ASCII letters; the other characters are left as they are
  (Python maps a few code points above 127 to code points the 8-bit model does not have).
\<close>

definition upper_char :: "char \<Rightarrow> char" where
  "upper_char c =
     (let n = (of_char c :: nat) in if 97 \<le> n \<and> n \<le> 122 then char_of (n - 32) else c)"

definition upper :: "string \<Rightarrow> string" where
  "upper s = map upper_char s"

text \<open>
  \<^verbatim>\<open>int(s)\<close> and \<^verbatim>\<open>int(s, 16)\<close> on a string, with \<open>None\<close> for
  \<^verbatim>\<open>ValueError\<close>: white space on both ends is skipped, one sign is accepted and,
  in base 16, one \<^verbatim>\<open>0x\<close> prefix; the digits may be separated by single
  underscores, and at least one digit is required. Integers are unbounded.
\<close>

definition py_isspace :: "char \<Rightarrow> bool" where
  "py_isspace c = ((of_char c :: nat) \<in> {9, 10, 11, 12, 13, 32, 133, 160})"

definition digit_val :: "nat \<Rightarrow> char \<Rightarrow> nat option" where
  "digit_val base c =
     (let n = (of_char c :: nat);
          d = (if 48 \<le> n \<and> n \<le> 57 then n - 48
               else if 97 \<le> n \<and> n \<le> 122 then n - 87
               else if 65 \<le> n \<and> n \<le> 90 then n - 55
               else 36)
      in if d < base then Some d else None)"

text \<open>
  The digit scan: \<open>acc\<close> is the value read so far, \<open>prev\<close> tells whether the
  previous character was a digit (an underscore needs one before it, and the scan
  must end on one).
\<close>

fun digits :: "nat \<Rightarrow> string \<Rightarrow> nat \<Rightarrow> bool \<Rightarrow> nat option" where
  "digits base [] acc prev = (if prev then Some acc else None)"
| "digits base (c # cs) acc prev =
     (if c = CHR ''_'' then (if prev then digits base cs acc False else None)
      else (case digit_val base c of
              None \<Rightarrow> None
            | Some d \<Rightarrow> digits base cs (base * acc + d) True))"

definition strip_sign :: "string \<Rightarrow> bool \<times> string" where
  "strip_sign s =
     (case s of
        [] \<Rightarrow> (False, s)
      | c # r \<Rightarrow> if c = CHR ''+'' then (False, r)
                 else if c = CHR ''-'' then (True, r) else (False, s))"

text \<open>After the prefix \<^verbatim>\<open>0x\<close> one underscore is skipped before the digits.\<close>

definition strip_0x :: "nat \<Rightarrow> string \<Rightarrow> string" where
  "strip_0x base s =
     (if base = 16 \<and> (startswith s ''0x'' \<or> startswith s ''0X'')
      then (let r = drop 2 s in if startswith r ''_'' then drop 1 r else r)
      else s)"

definition is_digit_char :: "nat \<Rightarrow> char \<Rightarrow> bool" where
  "is_digit_char base c = (c = CHR ''_'' \<or> digit_val base c \<noteq> None)"

definition py_int :: "nat \<Rightarrow> string \<Rightarrow> int option" where
  "py_int base s =
     (let (neg, s2) = strip_sign (dropWhile py_isspace s);
          s3 = strip_0x base s2;
          ds = takeWhile (is_digit_char base) s3;
          rest = dropWhile (is_digit_char base) s3
      in if startswith ds ''_'' \<or> \<not> list_all py_isspace rest then None
         else (case digits base ds 0 False of
                 None \<Rightarrow> None
               | Some n \<Rightarrow> Some (if neg then - int n else int n)))"

section \<open>Colours\<close>

text \<open>
  \<^verbatim>\<open>extract_color_value\<close>: the colour of a node, \<open>None\<close> when the node carries
  none. The truth test \<^verbatim>\<open>if last_clr:\<close> holds for a present, non-empty attribute.
\<close>

definition extract_color_value :: "xml \<Rightarrow> string option" where
  "extract_color_value element =
     (case find_elem ''a:srgbClr'' element of
        Some srgb_clr \<Rightarrow> Some (''#'' @ upper (get_attr srgb_clr ''val'' ''FFFFFF''))
      | None \<Rightarrow>
     (case find_elem ''a:schemeClr'' element of
        Some scheme_clr \<Rightarrow> Some (''scheme:'' @ get_attr scheme_clr ''val'' ''dk1'')
      | None \<Rightarrow>
     (case (case find_elem ''a:sysClr'' element of
              None \<Rightarrow> None
            | Some sys_clr \<Rightarrow>
                (case get_opt sys_clr ''lastClr'' of
                   None \<Rightarrow> None
                 | Some last_clr \<Rightarrow>
                     if last_clr \<noteq> [] then Some (''#'' @ upper last_clr) else None)) of
        Some c \<Rightarrow> Some c
      | None \<Rightarrow>
     (case find_elem ''a:prstClr'' element of
        Some prst_clr \<Rightarrow> Some (''preset:'' @ get_attr prst_clr ''val'' ''black'')
      | None \<Rightarrow> None))))"

text \<open>
  \<^verbatim>\<open>hex_to_rgb\<close>: one leading \<open>#\<close> is removed, a scheme or preset reference gives
  mid-gray, and so does a \<^verbatim>\<open>ValueError\<close> of one of the three conversions (the
  \<^verbatim>\<open>except\<close> clause catches it). The slices \<^verbatim>\<open>[0:2]\<close>, \<^verbatim>\<open>[2:4]\<close>, \<^verbatim>\<open>[4:6]\<close>
  are shorter than two characters, or empty, on a short string.
\<close>

definition hex_to_rgb :: "string \<Rightarrow> int \<times> int \<times> int" where
  "hex_to_rgb hex_color0 =
     (let hex_color = (if startswith hex_color0 ''#'' then drop 1 hex_color0 else hex_color0)
      in if startswith hex_color ''scheme:'' \<or> startswith hex_color ''preset:''
         then (128, 128, 128)
         else (case py_int 16 (take 2 hex_color) of
                 None \<Rightarrow> (128, 128, 128)
               | Some r \<Rightarrow>
             (case py_int 16 (take 2 (drop 2 hex_color)) of
                 None \<Rightarrow> (128, 128, 128)
               | Some g \<Rightarrow>
             (case py_int 16 (take 2 (drop 4 hex_color)) of
                 None \<Rightarrow> (128, 128, 128)
               | Some b \<Rightarrow> (r, g, b)))))"

section \<open>Slide role\<close>

definition infer_slide_role :: "xml \<Rightarrow> int \<Rightarrow> string" where
  "infer_slide_role slide_root index =
     (if index = 1 then ''title_slide''
      else (case find_elem ''p:spTree'' slide_root of
              None \<Rightarrow> ''content''
            | Some sp_tree \<Rightarrow>
                if findall ''c:chart'' sp_tree \<noteq> [] then ''data_visualization''
                else if findall ''a:tbl'' sp_tree \<noteq> [] then ''table_content''
                else if length (findall ''p:pic'' sp_tree) > 2 then ''image_gallery''
                else ''content''))"

section \<open>Numbers of the Python library\<close>

text \<open>
  Exceptions are values. Python's floats are modelled by exact rationals: a quotient, a
  product or a sum is the exact one, and formatting rounds the exact value (half to
  even), where Python rounds the nearest double. The two agree unless the exact value
  lies at a rounding tie or within the error of a double from one.
\<close>

datatype py_error =
  ValueError | ZeroDivisionError | KeyError | ParseError | IndexError | OSError

definition bind_err :: "py_error + 'a \<Rightarrow> ('a \<Rightarrow> py_error + 'b) \<Rightarrow> py_error + 'b" where
  "bind_err m f = (case m of Inl e \<Rightarrow> Inl e | Inr v \<Rightarrow> f v)"

text \<open>\<^verbatim>\<open>str(n)\<close> for an integer.\<close>

definition digit_char :: "nat \<Rightarrow> char" where
  "digit_char n = ''0123456789'' ! n"

fun str_nat :: "nat \<Rightarrow> string" where
  "str_nat n = (if n < 10 then [digit_char n] else str_nat (n div 10) @ [digit_char (n mod 10)])"

declare str_nat.simps [simp del]

definition str_int :: "int \<Rightarrow> string" where
  "str_int i = (if i < 0 then ''-'' @ str_nat (nat (- i)) else str_nat (nat i))"

text \<open>
  The format \<^verbatim>\<open>f"{v:.df}"\<close> of a float with sign \<open>neg\<close> and magnitude \<open>m\<close>: the
  magnitude is rounded to \<open>d\<close> decimals, and the sign is printed also when the rounded
  value is zero (Python prints \<^verbatim>\<open>-0.000000\<close>).
\<close>

definition round_half_even :: "rat \<Rightarrow> int" where
  "round_half_even q =
     (let f = \<lfloor>q\<rfloor>; r = q - of_int f
      in if r < 1 / 2 then f else if 1 / 2 < r then f + 1 else if even f then f else f + 1)"

definition scaled :: "nat \<Rightarrow> rat \<Rightarrow> nat" where
  "scaled d m = nat (round_half_even (m * 10 ^ d))"

definition zfill :: "nat \<Rightarrow> string \<Rightarrow> string" where
  "zfill d s = replicate (d - length s) CHR ''0'' @ s"

definition format_fixed :: "nat \<Rightarrow> bool \<Rightarrow> rat \<Rightarrow> string" where
  "format_fixed d neg m =
     (let n = scaled d m
      in (if neg then ''-'' else []) @ str_nat (n div 10 ^ d)
         @ (if d = 0 then [] else ''.'' @ zfill d (str_nat (n mod 10 ^ d))))"

definition format_float :: "nat \<Rightarrow> rat \<Rightarrow> string" where
  "format_float d q = format_fixed d (q < 0) \<bar>q\<bar>"

text \<open>
  \<^verbatim>\<open>f"{a / b:.6f}"\<close> for integers: the true division raises on a zero divisor, and
  a zero dividend over a negative divisor is the float \<^verbatim>\<open>-0.0\<close>.
\<close>

definition format_quotient :: "nat \<Rightarrow> int \<Rightarrow> int \<Rightarrow> py_error + string" where
  "format_quotient d a b =
     (if b = 0 then Inl ZeroDivisionError
      else Inr (format_fixed d ((a < 0 \<and> 0 < b) \<or> (0 \<le> a \<and> b < 0))
                  (\<bar>rat_of_int a\<bar> / \<bar>rat_of_int b\<bar>)))"

text \<open>
  \<^verbatim>\<open>float(s)\<close> on a string, with \<open>None\<close> for \<^verbatim>\<open>ValueError\<close>: white space on both
  ends, one sign, then digits with an optional fraction, each group of digits with
  single underscores between digits. The spellings with an exponent and of infinity and
  not-a-number are outside the model (they are \<open>None\<close> here): the texts that reach
  \<^verbatim>\<open>float\<close> in the extractor are written by the format above.
\<close>

definition digit_group :: "string \<Rightarrow> nat option" where
  "digit_group ds =
     (if ds = [] then Some 0
      else if startswith ds ''_'' then None
      else digits 10 ds 0 False)"

definition py_float :: "string \<Rightarrow> rat option" where
  "py_float s =
     (let (neg, s2) = strip_sign (dropWhile py_isspace s);
          ip = takeWhile (is_digit_char 10) s2;
          r = dropWhile (is_digit_char 10) s2;
          (fp, r2) = (case r of
                        [] \<Rightarrow> ([], [])
                      | c # r' \<Rightarrow>
                          if c = CHR ''.''
                          then (takeWhile (is_digit_char 10) r', dropWhile (is_digit_char 10) r')
                          else ([], r))
      in if \<not> list_all py_isspace r2 \<or> (ip = [] \<and> fp = []) then None
         else (case digit_group ip of
                 None \<Rightarrow> None
               | Some a \<Rightarrow>
             (case digit_group fp of
                 None \<Rightarrow> None
               | Some b \<Rightarrow>
                   let v = of_nat a + of_nat b / 10 ^ length (filter (\<lambda>c. c \<noteq> CHR ''_'') fp)
                   in Some (if neg then - v else v))))"

text \<open>\<^verbatim>\<open>float(elem.text or 0)\<close>: an absent or empty text counts as 0.\<close>

definition float_text :: "xml \<Rightarrow> py_error + rat" where
  "float_text e =
     (case text_of e of
        None \<Rightarrow> Inr 0
      | Some t \<Rightarrow> if t = [] then Inr 0
                  else (case py_float t of None \<Rightarrow> Inl ValueError | Some v \<Rightarrow> Inr v))"

text \<open>
  What the model takes from the Python library as it is: \<^verbatim>\<open>str(a / b)\<close>, the shortest
  decimal spelling of the double nearest to a quotient of integers (for a non-zero
  \<open>b\<close>); the Lab coordinates of an RGB triple, formatted
  \<^verbatim>\<open>f"{l:.1f},{a:.1f},{b:.1f}"\<close>; the first 16 hexadecimal digits of the SHA-256
  digest of a byte string; the suffix of a path, without its dot
  (\<^verbatim>\<open>Path(p).suffix[1:]\<close>), and its stem (\<^verbatim>\<open>Path(p).stem\<close>).
\<close>

record pylib =
  str_quotient :: "int \<Rightarrow> int \<Rightarrow> string"
  lab_string :: "int \<times> int \<times> int \<Rightarrow> string"
  sha256_16 :: "string \<Rightarrow> string"
  path_suffix :: "string \<Rightarrow> string"
  path_stem :: "string \<Rightarrow> string"

section \<open>The package\<close>

text \<open>
  The archive: its entries in order, each a name with the bytes of the part and the tree
  that \<^verbatim>\<open>ET.fromstring\<close> builds from them (\<open>None\<close> when it raises
  \<^verbatim>\<open>ParseError\<close>). \<^verbatim>\<open>read\<close> of a name that occurs twice takes the last entry,
  and raises \<^verbatim>\<open>KeyError\<close> on a name that does not occur.
\<close>

record part =
  raw :: string
  parsed :: "xml option"

type_synonym package = "(string \<times> part) list"


definition read_part :: "package \<Rightarrow> string \<Rightarrow> py_error + part" where
  "read_part zf name = (case map_of (rev zf) name of None \<Rightarrow> Inl KeyError | Some p \<Rightarrow> Inr p)"

definition read_xml :: "package \<Rightarrow> string \<Rightarrow> py_error + xml" where
  "read_xml zf name =
     bind_err (read_part zf name)
       (\<lambda>p. case parsed p of None \<Rightarrow> Inl ParseError | Some t \<Rightarrow> Inr t)"

section \<open>Geometry\<close>

text \<open>\<^verbatim>\<open>int(elem.get(key, d))\<close> with an integer default.\<close>

definition int_attr :: "xml \<Rightarrow> string \<Rightarrow> int \<Rightarrow> py_error + int" where
  "int_attr e k d =
     (case get_opt e k of
        None \<Rightarrow> Inr d
      | Some v \<Rightarrow> (case py_int 10 v of None \<Rightarrow> Inl ValueError | Some i \<Rightarrow> Inr i))"

text \<open>
  The canvas size that \<^verbatim>\<open>extract_geometry\<close> reads before it normalises: the
  defaults stay when the presentation part cannot be read or parsed or has no size
  element; when the width converts and the height does not, the width is already set.
\<close>

definition slide_size :: "package \<Rightarrow> int \<times> int" where
  "slide_size zf =
     (case read_xml zf ''ppt/presentation.xml'' of
        Inl _ \<Rightarrow> (9144000, 6858000)
      | Inr pres_root \<Rightarrow>
          (case find_elem ''p:sldSz'' pres_root of
             None \<Rightarrow> (9144000, 6858000)
           | Some sld_sz \<Rightarrow>
               (case int_attr sld_sz ''cx'' 9144000 of
                  Inl _ \<Rightarrow> (9144000, 6858000)
                | Inr w \<Rightarrow>
                    (case int_attr sld_sz ''cy'' 6858000 of
                       Inl _ \<Rightarrow> (w, 6858000)
                     | Inr h \<Rightarrow> (w, h)))))"

definition leaf :: "string \<Rightarrow> string \<Rightarrow> xml" where
  "leaf t v = Element t [] (Some v) []"

definition bool_text :: "bool \<Rightarrow> string" where
  "bool_text b = (if b then ''true'' else ''false'')"

text \<open>
  The offset or the extent of a transform: both attributes are converted, then each is
  divided by its side of the canvas and written with six decimals.
\<close>

definition normalized_pair ::
  "xml option \<Rightarrow> string \<Rightarrow> string \<Rightarrow> string \<Rightarrow> string \<Rightarrow> int \<Rightarrow> int \<Rightarrow> py_error + xml list" where
  "normalized_pair node kx ky tx ty slide_width slide_height =
     (case node of
        None \<Rightarrow> Inr []
      | Some n \<Rightarrow>
          bind_err (int_attr n kx 0) (\<lambda>x.
          bind_err (int_attr n ky 0) (\<lambda>y.
          bind_err (format_quotient 6 x slide_width) (\<lambda>sx.
          bind_err (format_quotient 6 y slide_height) (\<lambda>sy.
          Inr [leaf tx sx, leaf ty sy])))))"

definition extract_geometry :: "pylib \<Rightarrow> package \<Rightarrow> xml \<Rightarrow> py_error + xml" where
  "extract_geometry lib zf xfrm =
     (let (slide_width, slide_height) = slide_size zf
      in bind_err (normalized_pair (find_elem ''a:off'' xfrm) ''x'' ''y'' ''x'' ''y''
                     slide_width slide_height) (\<lambda>pos.
         bind_err (normalized_pair (find_elem ''a:ext'' xfrm) ''cx'' ''cy'' ''width'' ''height''
                     slide_width slide_height) (\<lambda>ext.
         bind_err (case py_int 10 (get_attr xfrm ''rot'' ''0'') of
                     None \<Rightarrow> Inl ValueError
                   | Some rot \<Rightarrow> Inr (str_quotient lib rot 60000)) (\<lambda>rotation.
         Inr (Element ''geometry'' [(''unit'', ''normalized'')] None
                (pos @ ext
                 @ [leaf ''rotation'' rotation,
                    leaf ''flip_h'' (bool_text (get_attr xfrm ''flipH'' ''0'' = ''1'')),
                    leaf ''flip_v'' (bool_text (get_attr xfrm ''flipV'' ''0'' = ''1''))]))))))"

section \<open>Relationships\<close>

text \<open>
  \<^verbatim>\<open>get_relationship_target\<close>: the target of the first relationship of a manifest
  whose id equals the given one (an absent id equals an absent id); \<open>None\<close> when the
  manifest cannot be read or parsed, when no relationship matches, or when the match has
  no target. The tag \<open>rel:Relationship\<close> stands for the relationship element of the
  package namespace.
\<close>

definition get_relationship_target :: "package \<Rightarrow> string \<Rightarrow> string option \<Rightarrow> string option" where
  "get_relationship_target zf rels_file rel_id =
     (case read_xml zf rels_file of
        Inl _ \<Rightarrow> None
      | Inr rels_root \<Rightarrow>
          (case filter (\<lambda>rel. get_opt rel ''Id'' = rel_id) (findall ''rel:Relationship'' rels_root) of
             [] \<Rightarrow> None
           | rel # _ \<Rightarrow> get_opt rel ''Target''))"

text \<open>\<^verbatim>\<open>s.replace(old, new)\<close> for a non-empty \<open>old\<close>: every occurrence, left to right.\<close>

fun replace_from :: "string \<Rightarrow> string \<Rightarrow> nat \<Rightarrow> string \<Rightarrow> string" where
  "replace_from old new skip [] = []"
| "replace_from old new skip (c # cs) =
     (if 0 < skip then replace_from old new (skip - 1) cs
      else if startswith (c # cs) old then new @ replace_from old new (length old - 1) cs
      else c # replace_from old new 0 cs)"

definition rels_of :: "string \<Rightarrow> string" where
  "rels_of slide_file = replace_from ''.xml'' ''.xml.rels'' 0 slide_file"

section \<open>The parts of an element\<close>

definition extract_fill_properties :: "xml \<Rightarrow> xml" where
  "extract_fill_properties shape =
     (case find_elem ''p:spPr'' shape of
        None \<Rightarrow> Element ''fill'' [(''type'', ''none'')] None []
      | Some sp_pr \<Rightarrow>
     (case (case find_elem ''a:solidFill'' sp_pr of
              None \<Rightarrow> None
            | Some solid_fill \<Rightarrow> extract_color_value solid_fill) of
        Some color \<Rightarrow> Element ''fill'' [(''type'', ''solid''), (''color'', color)] None []
      | None \<Rightarrow>
     (case find_elem ''a:gradFill'' sp_pr of
        Some grad_fill \<Rightarrow>
          Element ''fill'' [(''type'', ''gradient'')] None
            (concat (map (\<lambda>stop. case extract_color_value stop of
                                    None \<Rightarrow> []
                                  | Some color \<Rightarrow>
                                      [Element ''gradient_stop''
                                         [(''position'', get_attr stop ''pos'' ''0''),
                                          (''color'', color)] None []])
                      (findall ''a:gs'' grad_fill)))
      | None \<Rightarrow>
     (if find_elem ''a:pattFill'' sp_pr \<noteq> None then Element ''fill'' [(''type'', ''pattern'')] None []
      else if find_elem ''a:blipFill'' sp_pr \<noteq> None then Element ''fill'' [(''type'', ''image'')] None []
      else if find_elem ''a:noFill'' sp_pr \<noteq> None then Element ''fill'' [(''type'', ''none'')] None []
      else Element ''fill'' [(''type'', ''default'')] None []))))"

text \<open>\<^verbatim>\<open>str(int(s) / b)\<close>: the conversion may raise, the quotient is spelled by the library.\<close>

definition str_scaled :: "pylib \<Rightarrow> string \<Rightarrow> int \<Rightarrow> py_error + string" where
  "str_scaled lib s b =
     (case py_int 10 s of None \<Rightarrow> Inl ValueError | Some i \<Rightarrow> Inr (str_quotient lib i b))"

definition extract_stroke_properties :: "pylib \<Rightarrow> xml \<Rightarrow> py_error + xml" where
  "extract_stroke_properties lib shape =
     (case find_elem ''p:spPr'' shape of
        None \<Rightarrow> Inr (Element ''stroke'' [(''width'', ''0'')] None [])
      | Some sp_pr \<Rightarrow>
          (case find_elem ''a:ln'' sp_pr of
             None \<Rightarrow> Inr (Element ''stroke'' [(''width'', ''0'')] None [])
           | Some ln_elem \<Rightarrow>
               bind_err (str_scaled lib (get_attr ln_elem ''w'' ''0'') 12700) (\<lambda>width.
               Inr (Element ''stroke''
                      ([(''width'', width)]
                       @ (case (case find_elem ''a:solidFill'' ln_elem of
                                  None \<Rightarrow> None
                                | Some solid_fill \<Rightarrow> extract_color_value solid_fill) of
                            None \<Rightarrow> []
                          | Some color \<Rightarrow> [(''color'', color)])
                       @ (case find_elem ''a:prstDash'' ln_elem of
                            None \<Rightarrow> []
                          | Some dash \<Rightarrow> [(''dash'', get_attr dash ''val'' ''solid'')]))
                      None []))))"

text \<open>
  The colour of a run: its value with the RGB triple of \<^verbatim>\<open>hex_to_rgb\<close> and the Lab
  coordinates of the library.
\<close>

definition color_element :: "pylib \<Rightarrow> string \<Rightarrow> xml" where
  "color_element lib color =
     (let rgb = hex_to_rgb color
      in Element ''color''
           [(''hex'', color),
            (''rgb'', str_int (fst rgb) @ '','' @ str_int (fst (snd rgb)) @ '','' @ str_int (snd (snd rgb))),
            (''lab'', lab_string lib rgb)] None [])"

definition extract_text_run :: "pylib \<Rightarrow> xml \<Rightarrow> nat \<Rightarrow> py_error + xml" where
  "extract_text_run lib r idx =
     (let txt = (case find_elem ''a:t'' r of
                   None \<Rightarrow> []
                 | Some t \<Rightarrow> (case text_of t of None \<Rightarrow> [] | Some s \<Rightarrow> s))
      in case find_elem ''a:rPr'' r of
           None \<Rightarrow> Inr (Element ''text_run'' [(''idx'', str_nat idx)] None [leaf ''text'' txt])
         | Some r_pr \<Rightarrow>
             bind_err (str_scaled lib (get_attr r_pr ''sz'' ''1800'') 100) (\<lambda>font_size.
             bind_err (if get_attr r_pr ''spc'' ''0'' \<noteq> ''0''
                       then bind_err (str_scaled lib (get_attr r_pr ''spc'' ''0'') 100)
                              (\<lambda>v. Inr [leaf ''letter_spacing'' v])
                       else Inr []) (\<lambda>letter_spacing.
             Inr (Element ''text_run'' [(''idx'', str_nat idx)] None
                    ([leaf ''text'' txt,
                      Element ''font''
                        [(''family'', (case find_elem ''a:latin'' r_pr of
                                         None \<Rightarrow> ''Calibri''
                                       | Some latin \<Rightarrow> get_attr latin ''typeface'' ''Calibri'')),
                         (''size'', font_size),
                         (''bold'', bool_text (get_attr r_pr ''b'' ''0'' = ''1'')),
                         (''italic'', bool_text (get_attr r_pr ''i'' ''0'' = ''1'')),
                         (''underline'', bool_text (get_attr r_pr ''u'' ''none'' \<noteq> ''none'')),
                         (''strike'', bool_text (get_attr r_pr ''strike'' ''noStrike'' \<noteq> ''noStrike''))]
                        None []]
                     @ (case (case find_elem ''a:solidFill'' r_pr of
                                None \<Rightarrow> None
                              | Some solid_fill \<Rightarrow> extract_color_value solid_fill) of
                          None \<Rightarrow> []
                        | Some color \<Rightarrow> [color_element lib color])
                     @ letter_spacing
                     @ (if get_attr r_pr ''baseline'' ''0'' \<noteq> ''0''
                        then [leaf ''baseline_offset'' (get_attr r_pr ''baseline'' ''0'')]
                        else []))))))"

text \<open>
  A loop that builds one child per item, with its index, and stops at the first
  exception.
\<close>

fun map_err :: "('a \<Rightarrow> nat \<Rightarrow> py_error + 'b) \<Rightarrow> 'a list \<Rightarrow> nat \<Rightarrow> py_error + 'b list" where
  "map_err f [] i = Inr []"
| "map_err f (x # xs) i =
     bind_err (f x i) (\<lambda>y. bind_err (map_err f xs (Suc i)) (\<lambda>ys. Inr (y # ys)))"

text \<open>The bullet U+2022, spelled by its UTF-8 bytes in the 8-bit model.\<close>

definition bullet :: string where
  "bullet = [char_of (226 :: nat), char_of (128 :: nat), char_of (162 :: nat)]"

definition spacing_points :: "xml \<Rightarrow> string \<Rightarrow> string \<Rightarrow> xml list" where
  "spacing_points p_pr t name =
     (case find_elem t p_pr of
        None \<Rightarrow> []
      | Some spc \<Rightarrow>
          (case find_elem ''a:spcPts'' spc of
             None \<Rightarrow> []
           | Some spc_pts \<Rightarrow> [leaf name (get_attr spc_pts ''val'' ''0'')]))"

definition extract_paragraph :: "pylib \<Rightarrow> xml \<Rightarrow> nat \<Rightarrow> py_error + xml" where
  "extract_paragraph lib p idx =
     bind_err
       (case find_elem ''a:pPr'' p of
          None \<Rightarrow> Inr ([], [])
        | Some p_pr \<Rightarrow>
            bind_err
              (case find_elem ''a:lnSpc'' p_pr of
                 None \<Rightarrow> Inr []
               | Some ln_spc \<Rightarrow>
                   (case find_elem ''a:spcPct'' ln_spc of
                      None \<Rightarrow> Inr []
                    | Some spc_pct \<Rightarrow>
                        bind_err (str_scaled lib (get_attr spc_pct ''val'' ''100000'') 100000)
                          (\<lambda>v. Inr [leaf ''line_spacing'' v])))
              (\<lambda>line_spacing.
                 Inr ([(''level'', get_attr p_pr ''lvl'' ''0'')]
                      @ (if find_elem ''a:buNone'' p_pr = None
                         then [(''bullet'', (case find_elem ''a:buChar'' p_pr of
                                               None \<Rightarrow> bullet
                                             | Some bu_char \<Rightarrow> get_attr bu_char ''char'' bullet))]
                         else []),
                      [leaf ''alignment'' (get_attr p_pr ''algn'' ''left'')]
                      @ line_spacing
                      @ spacing_points p_pr ''a:spcBef'' ''space_before''
                      @ spacing_points p_pr ''a:spcAft'' ''space_after'')))
       (\<lambda>(attrs, props).
          bind_err (map_err (extract_text_run lib) (findall ''a:r'' p) 0) (\<lambda>runs.
          Inr (Element ''paragraph'' ([(''idx'', str_nat idx)] @ attrs) None
                 (props @ runs
                  @ (if findall ''a:r'' p = [] \<and> find_elem ''a:endParaRPr'' p \<noteq> None
                     then [Element ''text_run'' [(''idx'', ''0'')] None [leaf ''text'' []]]
                     else [])))))"

definition extract_text_body :: "pylib \<Rightarrow> xml \<Rightarrow> py_error + xml" where
  "extract_text_body lib tx_body =
     bind_err (map_err (extract_paragraph lib) (findall ''a:p'' tx_body) 0) (\<lambda>paragraphs.
     Inr (Element ''text_body'' [] None
            ((case find_elem ''a:bodyPr'' tx_body of
                None \<Rightarrow> []
              | Some body_pr \<Rightarrow> [leaf ''language'' (get_attr body_pr ''lang'' ''en-US'')])
             @ paragraphs)))"

text \<open>The alternative text of the naming element, when it is not empty.\<close>

definition accessibility :: "xml option \<Rightarrow> xml list" where
  "accessibility c_nv_pr =
     (let alt_text = (case c_nv_pr of None \<Rightarrow> [] | Some c \<Rightarrow> get_attr c ''descr'' [])
      in if alt_text \<noteq> []
         then [Element ''accessibility'' [] None [leaf ''alt_text'' alt_text]]
         else [])"

text \<open>The geometry child of an element, when the node has a transform.\<close>

definition geometry_of :: "pylib \<Rightarrow> package \<Rightarrow> xml \<Rightarrow> py_error + xml list" where
  "geometry_of lib zf node =
     (case find_elem ''a:xfrm'' node of
        None \<Rightarrow> Inr []
      | Some xfrm \<Rightarrow> bind_err (extract_geometry lib zf xfrm) (\<lambda>geom. Inr [geom]))"

section \<open>Elements\<close>

text \<open>
  Each extractor returns an element, \<open>None\<close> for a child it drops, or raises. The
  identifier falls back to the z-order the caller passes; the z-order is written as
  the attribute \<open>z_order\<close>.
\<close>

definition element_id :: "xml option \<Rightarrow> nat \<Rightarrow> string" where
  "element_id c_nv_pr z_order =
     (case c_nv_pr of None \<Rightarrow> str_nat z_order | Some c \<Rightarrow> get_attr c ''id'' (str_nat z_order))"

definition extract_shape_element ::
  "pylib \<Rightarrow> package \<Rightarrow> string \<Rightarrow> xml \<Rightarrow> nat \<Rightarrow> py_error + xml option" where
  "extract_shape_element lib zf slide_file shape z_order =
     (case find_elem ''p:nvSpPr'' shape of
        None \<Rightarrow> Inr None
      | Some nv_sp_pr \<Rightarrow>
          (let c_nv_pr = find_elem ''p:cNvPr'' nv_sp_pr
           in bind_err (geometry_of lib zf shape) (\<lambda>geom.
              bind_err (extract_stroke_properties lib shape) (\<lambda>stroke.
              bind_err (case find_elem ''p:txBody'' shape of
                          None \<Rightarrow> Inr []
                        | Some tx_body \<Rightarrow>
                            bind_err (extract_text_body lib tx_body) (\<lambda>tb. Inr [tb])) (\<lambda>text_body.
              Inr (Some (Element ''element''
                           [(''id'', element_id c_nv_pr z_order), (''type'', ''textbox''),
                            (''z_order'', str_nat z_order)] None
                           (geom
                            @ (case find_elem ''p:ph'' nv_sp_pr of
                                 None \<Rightarrow> []
                               | Some ph \<Rightarrow>
                                   [Element ''placeholder''
                                      [(''type'', get_attr ph ''type'' ''body''),
                                       (''idx'', get_attr ph ''idx'' ''0'')] None []])
                            @ [extract_fill_properties shape, stroke]
                            @ text_body
                            @ accessibility c_nv_pr))))))))"

text \<open>
  The media reference of a picture: the target of its embed relationship in the
  manifest of the slide, with the suffix of the target as its type.
\<close>

definition media_reference :: "pylib \<Rightarrow> package \<Rightarrow> string \<Rightarrow> xml \<Rightarrow> xml list" where
  "media_reference lib zf slide_file pic =
     (case find_elem ''a:blip'' pic of
        None \<Rightarrow> []
      | Some blip \<Rightarrow>
          (case get_opt blip ''r:embed'' of
             None \<Rightarrow> []
           | Some embed_id \<Rightarrow>
               if embed_id = [] then []
               else (case get_relationship_target zf (rels_of slide_file) (Some embed_id) of
                       None \<Rightarrow> []
                     | Some image_file \<Rightarrow>
                         if image_file = [] then []
                         else [Element ''media_reference''
                                 [(''file'', image_file), (''type'', path_suffix lib image_file)]
                                 None []])))"

definition extract_picture_element ::
  "pylib \<Rightarrow> package \<Rightarrow> string \<Rightarrow> xml \<Rightarrow> nat \<Rightarrow> py_error + xml option" where
  "extract_picture_element lib zf slide_file pic z_order =
     (case find_elem ''p:nvPicPr'' pic of
        None \<Rightarrow> Inr None
      | Some nv_pic_pr \<Rightarrow>
          (let c_nv_pr = find_elem ''p:cNvPr'' nv_pic_pr
           in bind_err (geometry_of lib zf pic) (\<lambda>geom.
              Inr (Some (Element ''element''
                           [(''id'', element_id c_nv_pr z_order), (''type'', ''picture''),
                            (''z_order'', str_nat z_order)] None
                           (geom @ media_reference lib zf slide_file pic
                            @ accessibility c_nv_pr))))))"

text \<open>
  The text of a chart title or label: the first rich text when it is not empty, else the
  first cached value of a string reference.
\<close>

definition nonempty_text :: "xml \<Rightarrow> string option" where
  "nonempty_text e = (case text_of e of None \<Rightarrow> None | Some s \<Rightarrow> if s = [] then None else Some s)"

definition get_text_from_chart_element :: "xml option \<Rightarrow> string option" where
  "get_text_from_chart_element elem =
     (case elem of
        None \<Rightarrow> None
      | Some e \<Rightarrow>
          (case (case find_elem ''a:t'' e of None \<Rightarrow> None | Some rich \<Rightarrow> nonempty_text rich) of
             Some s \<Rightarrow> Some s
           | None \<Rightarrow>
               (case find_elem ''c:strRef'' e of
                  None \<Rightarrow> None
                | Some str_ref \<Rightarrow>
                    (case find_elem ''c:strCache'' str_ref of
                       None \<Rightarrow> None
                     | Some str_cache \<Rightarrow>
                         (case find_elem ''c:pt'' str_cache of
                            None \<Rightarrow> None
                          | Some pt \<Rightarrow>
                              (case find_elem ''c:v'' pt of
                                 None \<Rightarrow> None
                               | Some v \<Rightarrow> nonempty_text v))))))"

text \<open>
  \<^verbatim>\<open>'Chart' in tag\<close>, and \<^verbatim>\<open>tag.split('}')[1]\<close>: the local name of a tag that has a
  namespace (here: a prefix), \<^verbatim>\<open>IndexError\<close> for a tag without one.
\<close>

fun contains :: "string \<Rightarrow> string \<Rightarrow> bool" where
  "contains [] sub = (sub = [])"
| "contains (c # cs) sub = (startswith (c # cs) sub \<or> contains cs sub)"

definition local_name :: "string \<Rightarrow> py_error + string" where
  "local_name t =
     (if CHR '':'' \<in> set t
      then Inr (takeWhile (\<lambda>c. c \<noteq> CHR '':'') (drop 1 (dropWhile (\<lambda>c. c \<noteq> CHR '':'') t)))
      else Inl IndexError)"

text \<open>
  \<^verbatim>\<open>extract_chart_definition\<close> catches every exception: an unreadable chart part, or
  a plot type whose tag has no namespace, leaves the definition as it is at that point.
\<close>

definition extract_chart_definition :: "package \<Rightarrow> string \<Rightarrow> xml" where
  "extract_chart_definition zf chart_file =
     (case read_xml zf chart_file of
        Inl _ \<Rightarrow> Element ''chart_definition'' [] None []
      | Inr chart_root \<Rightarrow>
          (case (case find_elem ''c:plotArea'' chart_root of
                   None \<Rightarrow> Inr []
                 | Some plot_area \<Rightarrow>
                     (case filter (\<lambda>child. contains (tag child) ''Chart'') (children plot_area) of
                        [] \<Rightarrow> Inr []
                      | child # _ \<Rightarrow>
                          bind_err (local_name (tag child)) (\<lambda>chart_type.
                          Inr [leaf ''chart_type'' chart_type]))) of
             Inl _ \<Rightarrow> Element ''chart_definition'' [] None []
           | Inr chart_type \<Rightarrow>
               Element ''chart_definition'' [] None
                 (chart_type
                  @ (case get_text_from_chart_element (find_elem ''c:title'' chart_root) of
                       None \<Rightarrow> []
                     | Some title_text \<Rightarrow> [leaf ''title'' title_text])
                  @ (case find_elem ''c:legend'' chart_root of
                       None \<Rightarrow> []
                     | Some legend \<Rightarrow>
                         [Element ''legend''
                            [(''position'', (case find_elem ''c:legendPos'' legend of
                                               None \<Rightarrow> ''r''
                                             | Some leg_pos \<Rightarrow> get_attr leg_pos ''val'' ''r'')),
                             (''show'', ''true'')] None []])
                  @ (if findall ''c:ser'' chart_root = [] then []
                     else [Element ''series'' [] None
                             (map (\<lambda>(idx, ser).
                                     Element ''data_series''
                                       ([(''idx'', str_nat idx)]
                                        @ (case get_text_from_chart_element (find_elem ''c:tx'' ser) of
                                             None \<Rightarrow> []
                                           | Some ser_name \<Rightarrow> [(''name'', ser_name)]))
                                       None [])
                                (enumerate 0 (findall ''c:ser'' chart_root)))]))))"

definition extract_chart_element ::
  "pylib \<Rightarrow> package \<Rightarrow> string \<Rightarrow> xml \<Rightarrow> nat \<Rightarrow> py_error + xml" where
  "extract_chart_element lib zf slide_file gf z_order =
     bind_err (geometry_of lib zf gf) (\<lambda>geom.
     Inr (Element ''element'' [(''type'', ''chart''), (''z_order'', str_nat z_order)] None
            (geom
             @ (case find_elem ''c:chart'' gf of
                  None \<Rightarrow> []
                | Some chart_elem \<Rightarrow>
                    (case get_opt chart_elem ''r:id'' of
                       None \<Rightarrow> []
                     | Some rid \<Rightarrow>
                         if rid = [] then []
                         else (case get_relationship_target zf (rels_of slide_file) (Some rid) of
                                 None \<Rightarrow> []
                               | Some chart_file \<Rightarrow>
                                   if chart_file = [] then []
                                   else [extract_chart_definition zf (''ppt/'' @ chart_file)]))))))"

text \<open>\<^verbatim>\<open>' '.join\<close> of the non-empty texts below a cell.\<close>

fun join :: "string \<Rightarrow> string list \<Rightarrow> string" where
  "join sep [] = []"
| "join sep [x] = x"
| "join sep (x # y # ys) = x @ sep @ join sep (y # ys)"

definition get_all_text_from_element :: "xml \<Rightarrow> string" where
  "get_all_text_from_element elem =
     join '' '' (concat (map (\<lambda>t. case nonempty_text t of None \<Rightarrow> [] | Some s \<Rightarrow> [s])
                          (findall ''a:t'' elem)))"

definition table_definition :: "xml \<Rightarrow> xml" where
  "table_definition tbl =
     (let rows = findall ''a:tr'' tbl
      in Element ''table_definition'' [] None
           ([leaf ''row_count'' (str_nat (length rows))]
            @ (case rows of
                 [] \<Rightarrow> []
               | row0 # _ \<Rightarrow> [leaf ''col_count'' (str_nat (length (findall ''a:tc'' row0)))])
            @ [Element ''rows'' [] None
                 (map (\<lambda>(row_idx, row).
                         Element ''row'' [(''idx'', str_nat row_idx)] None
                           (map (\<lambda>(cell_idx, cell).
                                   Element ''cell'' [(''idx'', str_nat cell_idx)] None
                                     (let txt = get_all_text_from_element cell
                                      in if txt \<noteq> [] then [leaf ''text'' txt] else []))
                              (enumerate 0 (findall ''a:tc'' row))))
                    (enumerate 0 rows))]))"

definition extract_table_element ::
  "pylib \<Rightarrow> package \<Rightarrow> string \<Rightarrow> xml \<Rightarrow> nat \<Rightarrow> py_error + xml" where
  "extract_table_element lib zf slide_file gf z_order =
     bind_err (geometry_of lib zf gf) (\<lambda>geom.
     Inr (Element ''element'' [(''type'', ''table''), (''z_order'', str_nat z_order)] None
            (geom
             @ (case find_elem ''a:tbl'' gf of
                  None \<Rightarrow> []
                | Some tbl \<Rightarrow> [table_definition tbl]))))"

definition extract_graphic_frame ::
  "pylib \<Rightarrow> package \<Rightarrow> string \<Rightarrow> xml \<Rightarrow> nat \<Rightarrow> py_error + xml option" where
  "extract_graphic_frame lib zf slide_file gf z_order =
     (if find_elem ''c:chart'' gf \<noteq> None
      then bind_err (extract_chart_element lib zf slide_file gf z_order) (\<lambda>e. Inr (Some e))
      else if find_elem ''a:tbl'' gf \<noteq> None
      then bind_err (extract_table_element lib zf slide_file gf z_order) (\<lambda>e. Inr (Some e))
      else Inr (Some (Element ''element''
                        [(''type'', ''graphic''), (''z_order'', str_nat z_order)] None [])))"

section \<open>The passes over a slide\<close>

text \<open>
  One pass: the loop \<^verbatim>\<open>for child in ...: elem = extract(child, z_order); if elem is
  not None: append(elem); z_order += 1\<close>. The state is the counter and the elements
  appended so far; an exception of an extractor ends the pass and is returned with the
  state it left (the elements already appended stay in the tree).
\<close>

fun extract_pass ::
  "(xml \<Rightarrow> nat \<Rightarrow> py_error + xml option) \<Rightarrow> xml list \<Rightarrow> nat \<Rightarrow> xml list
     \<Rightarrow> py_error option \<times> nat \<times> xml list" where
  "extract_pass extract [] z_order elements = (None, z_order, elements)"
| "extract_pass extract (child # rest) z_order elements =
     (case extract child z_order of
        Inl err \<Rightarrow> (Some err, z_order, elements)
      | Inr None \<Rightarrow> extract_pass extract rest z_order elements
      | Inr (Some elem) \<Rightarrow> extract_pass extract rest (z_order + 1) (elements @ [elem]))"

text \<open>
  A group: its geometry and the shapes below it, numbered by a counter of their own
  that starts at 1. The group itself is never dropped.
\<close>

definition extract_group_element ::
  "pylib \<Rightarrow> package \<Rightarrow> string \<Rightarrow> xml \<Rightarrow> nat \<Rightarrow> py_error + xml option" where
  "extract_group_element lib zf slide_file grp z_order =
     bind_err (geometry_of lib zf grp) (\<lambda>geom.
     (case extract_pass (extract_shape_element lib zf slide_file) (findall ''p:sp'' grp) 1 [] of
        (Some err, _, _) \<Rightarrow> Inl err
      | (None, _, kids) \<Rightarrow>
          Inr (Some (Element ''element'' [(''type'', ''group''), (''z_order'', str_nat z_order)] None
                       (geom @ [Element ''children'' [] None kids])))))"

text \<open>
  \<^verbatim>\<open>extract_slide_elements\<close>: the four passes over the shape tree, sharing the
  counter. The result is what was appended to the \<open>elements\<close> node, and the exception
  that ended the walk, if one did.
\<close>

definition then_pass ::
  "(xml \<Rightarrow> nat \<Rightarrow> py_error + xml option) \<Rightarrow> xml list \<Rightarrow> py_error option \<times> nat \<times> xml list
     \<Rightarrow> py_error option \<times> nat \<times> xml list" where
  "then_pass extract nodes st =
     (case st of
        (Some err, z_order, elements) \<Rightarrow> (Some err, z_order, elements)
      | (None, z_order, elements) \<Rightarrow> extract_pass extract nodes z_order elements)"

text \<open>
  The body of \<^verbatim>\<open>extract_slide_elements\<close> once the shape tree is found; the counter
  \<^verbatim>\<open>z_order\<close> is local to it, so the final state is returned with the counter.
\<close>

definition slide_passes ::
  "pylib \<Rightarrow> package \<Rightarrow> string \<Rightarrow> xml \<Rightarrow> py_error option \<times> nat \<times> xml list" where
  "slide_passes lib zf slide_file sp_tree =
     then_pass (extract_group_element lib zf slide_file) (findall ''p:grpSp'' sp_tree)
       (then_pass (extract_graphic_frame lib zf slide_file) (findall ''p:graphicFrame'' sp_tree)
          (then_pass (extract_picture_element lib zf slide_file) (findall ''p:pic'' sp_tree)
             (extract_pass (extract_shape_element lib zf slide_file) (findall ''p:sp'' sp_tree)
                1 [])))"

definition extract_slide_elements ::
  "pylib \<Rightarrow> package \<Rightarrow> string \<Rightarrow> xml \<Rightarrow> xml list \<times> py_error option" where
  "extract_slide_elements lib zf slide_file slide_root =
     (case find_elem ''p:spTree'' slide_root of
        None \<Rightarrow> ([], None)
      | Some sp_tree \<Rightarrow>
          (case slide_passes lib zf slide_file sp_tree of
             (err, _, elements) \<Rightarrow> (elements, err)))"

section \<open>Slides\<close>


definition findall_has :: "string \<Rightarrow> string \<Rightarrow> xml \<Rightarrow> xml list" where
  "findall_has t k e = filter (\<lambda>d. tag d = t \<and> get_opt d k \<noteq> None) (descendants e)"




section \<open>Computed features of a slide\<close>

text \<open>
  The area loop: every element below the \<open>elements\<close> node that has a geometry with a
  width and a height adds their product.
\<close>

definition element_area :: "xml \<Rightarrow> py_error + rat" where
  "element_area elem =
     (case find_elem ''geometry'' elem of
        None \<Rightarrow> Inr 0
      | Some geom \<Rightarrow>
          (case (find_elem ''width'' geom, find_elem ''height'' geom) of
             (Some width_elem, Some height_elem) \<Rightarrow>
               bind_err (float_text width_elem) (\<lambda>width.
               bind_err (float_text height_elem) (\<lambda>height. Inr (width * height)))
           | _ \<Rightarrow> Inr 0))"

fun total_area :: "xml list \<Rightarrow> rat \<Rightarrow> py_error + rat" where
  "total_area [] acc = Inr acc"
| "total_area (elem # rest) acc =
     bind_err (element_area elem) (\<lambda>a. total_area rest (acc + a))"






definition literal_colors :: "xml \<Rightarrow> string list" where
  "literal_colors e =
     filter (\<lambda>hex_val. hex_val \<noteq> [] \<and> \<not> startswith hex_val ''scheme:'')
       (map (\<lambda>c. get_attr c ''hex'' []) (findall_has ''color'' ''hex'' e))"



section \<open>The run\<close>



text \<open>
  A dictionary of counts, in the order of first insertion
  (\<^verbatim>\<open>defaultdict(int)\<close> with \<^verbatim>\<open>d[k] += 1\<close>).
\<close>

fun increment :: "string \<Rightarrow> (string \<times> nat) list \<Rightarrow> (string \<times> nat) list" where
  "increment k [] = [(k, 1)]"
| "increment k ((k', n) # rest) = (if k = k' then (k', n + 1) # rest else (k', n) # increment k rest)"

definition tally :: "string list \<Rightarrow> (string \<times> nat) list" where
  "tally ks = foldl (\<lambda>d k. increment k d) [] ks"



text \<open>
  The colour ranking of \<^verbatim>\<open>compute_global_statistics\<close>: the counts of the colours of
  the whole tree, sorted by descending count (the sort is stable, so equal counts keep
  the order of first occurrence), the first ten, each with its share of all the colours
  counted.
\<close>

definition top_colors :: "xml \<Rightarrow> (string \<times> nat) list" where
  "top_colors training_data =
     take 10 (sort_key (\<lambda>(color, count). - int count) (tally (literal_colors training_data)))"

definition most_used_colors :: "xml \<Rightarrow> xml" where
  "most_used_colors training_data =
     (let total_color_count = length (literal_colors training_data)
      in Element ''most_used_colors'' [] None
           (map (\<lambda>(color, count).
                   Element ''color''
                     [(''hex'', color), (''count'', str_nat count),
                      (''percentage'',
                       format_float 1 (if 0 < total_color_count
                                       then of_nat count / of_nat total_color_count * 100
                                       else 0))] None [])
              (top_colors training_data)))"




section \<open>Notions of the specification\<close>


text \<open>What a slide contains: the nodes of its shape tree; how many carry a tag.\<close>

definition shape_tree_nodes :: "xml \<Rightarrow> xml list" where
  "shape_tree_nodes slide_root =
     (case find_elem ''p:spTree'' slide_root of
        None \<Rightarrow> []
      | Some sp_tree \<Rightarrow> descendants sp_tree)"

definition count_tag :: "string \<Rightarrow> xml \<Rightarrow> nat" where
  "count_tag t slide_root = length (filter (\<lambda>d. tag d = t) (shape_tree_nodes slide_root))"

text \<open>The string \<^verbatim>\<open>hex_to_rgb\<close> looks at once one leading \<open>#\<close> is removed.\<close>

definition strip_hash :: "string \<Rightarrow> string" where
  "strip_hash s = (if startswith s ''#'' then drop 1 s else s)"

text \<open>
  The kind of an emitted element, as a rank in the order of the passes: shapes, pictures,
  graphic frames (chart, table or other), groups; 4 for anything else.
\<close>

definition type_rank :: "xml \<Rightarrow> nat" where
  "type_rank e =
     (let t = get_opt e ''type''
      in if t = Some ''textbox'' then 0
         else if t = Some ''picture'' then 1
         else if t = Some ''chart'' \<or> t = Some ''table'' \<or> t = Some ''graphic'' then 2
         else if t = Some ''group'' then 3
         else 4)"

definition z_orders :: "xml list \<Rightarrow> string option list" where
  "z_orders els = map (\<lambda>e. get_opt e ''z_order'') els"

text \<open>The z-orders as numbers, read as a consumer reads them (\<^verbatim>\<open>int(elem.get('z_order'))\<close>).\<close>

definition z_order_numbers :: "xml list \<Rightarrow> int option list" where
  "z_order_numbers els =
     map (\<lambda>e. case get_opt e ''z_order'' of None \<Rightarrow> None | Some s \<Rightarrow> py_int 10 s) els"

text \<open>A node has a naming element (or any other descendant) of the given tag.\<close>

definition has_child :: "string \<Rightarrow> xml \<Rightarrow> bool" where
  "has_child t node = (find_elem t node \<noteq> None)"

text \<open>
  An instance of the library for the examples below. It gives what Python gives at the
  one place where an example reaches it (\<^verbatim>\<open>str(0 / 60000)\<close> is \<open>0.0\<close>).
\<close>

definition example_lib :: pylib where
  "example_lib =
     \<lparr>str_quotient = (\<lambda>a b. ''0.0''), lab_string = (\<lambda>rgb. ''0.0,0.0,0.0''),
      sha256_16 = (\<lambda>bytes. ''0000000000000000''), path_suffix = (\<lambda>p. ''png''),
      path_stem = (\<lambda>p. ''slide1'')\<rparr>"

text \<open>
  Examples. In the shape tree, a shape without its naming element precedes a named one.
  In the slide, the shape tree holds a picture and a group, and the only shape lies
  inside the group.
\<close>

definition named_shape :: xml where
  "named_shape =
     Element ''p:sp'' [] None
       [Element ''p:nvSpPr'' [] None [Element ''p:cNvPr'' [(''id'', ''7'')] None []]]"

definition tree_dropped_shape :: xml where
  "tree_dropped_shape = Element ''p:spTree'' [] None [Element ''p:sp'' [] None [], named_shape]"

definition slide_nested_shape :: xml where
  "slide_nested_shape =
     Element ''p:sld'' [] None
       [Element ''p:cSld'' [] None
          [Element ''p:spTree'' [] None
             [Element ''p:pic'' [] None [Element ''p:nvPicPr'' [] None []],
              Element ''p:grpSp'' [] None [named_shape]]]]"


text \<open>
  A training tree whose only slide has one text run per colour: a preset reference, a
  scheme reference, red, green, green, and the preset reference again.
\<close>

definition colored_run :: "string \<Rightarrow> xml" where
  "colored_run hex =
     Element ''text_run'' [(''idx'', ''0'')] None
       [leaf ''text'' ''a'',
        Element ''color'' [(''hex'', hex), (''rgb'', ''128,128,128''), (''lab'', ''53.6,0.0,0.0'')]
          None []]"

definition colored_deck :: xml where
  "colored_deck =
     Element ''presentation_training_data'' [(''version'', ''1.0'')] None
       [Element ''slides'' [] None
          [Element ''slide'' [(''id'', ''slide1''), (''index'', ''1'')] None
             [Element ''elements'' [] None
                [Element ''element'' [(''id'', ''2''), (''type'', ''textbox''), (''z_order'', ''1'')]
                   None
                   [Element ''text_body'' [] None
                      [Element ''paragraph'' [(''idx'', ''0'')] None
                         [colored_run ''preset:red'', colored_run ''scheme:dk1'',
                          colored_run ''#FF0000'', colored_run ''#00FF00'',
                          colored_run ''#00FF00'', colored_run ''preset:red'']]]]]]]"



text \<open>The decimal digits, and the step of reading a number digit by digit.\<close>

definition is_dec :: "char \<Rightarrow> bool" where
  "is_dec c = (48 \<le> (of_char c :: nat) \<and> (of_char c :: nat) \<le> 57)"

definition dec_step :: "nat \<Rightarrow> char \<Rightarrow> nat" where
  "dec_step a c = 10 * a + (of_char c - 48)"

section \<open>Properties: colours\<close>

lemma digit_val_less: "digit_val base c = Some d \<Longrightarrow> d < base"
  by (auto simp: digit_val_def Let_def split: if_splits)

lemma digits_bound:
  "0 < base \<Longrightarrow> digits base ds acc prev = Some n \<Longrightarrow> n < (acc + 1) * base ^ length ds"
proof (induction ds arbitrary: acc prev)
  case Nil
  then show ?case by (simp split: if_splits)
next
  case (Cons c cs)
  show ?case
  proof (cases "c = CHR ''_''")
    case True
    with Cons.prems(2) have "digits base cs acc False = Some n"
      by (simp split: if_splits)
    then have "n < (acc + 1) * base ^ length cs" by (rule Cons.IH [OF Cons.prems(1)])
    also have "\<dots> \<le> (acc + 1) * (base * base ^ length cs)"
      using Cons.prems(1) by (intro mult_left_mono) auto
    finally show ?thesis by simp
  next
    case False
    with Cons.prems(2) obtain d where d: "digit_val base c = Some d"
      and r: "digits base cs (base * acc + d) True = Some n"
      by (auto split: option.splits)
    from r have "n < (base * acc + d + 1) * base ^ length cs"
      by (rule Cons.IH [OF Cons.prems(1)])
    also have "\<dots> \<le> (base * acc + base) * base ^ length cs"
      using digit_val_less [OF d] by (intro mult_right_mono) auto
    also have "\<dots> = (acc + 1) * base ^ length (c # cs)" by (simp add: algebra_simps)
    finally show ?thesis .
  qed
qed

lemma length_strip_0x: "length (strip_0x base s) \<le> length s"
  by (simp add: strip_0x_def Let_def)

lemma strip_sign_cases:
  "strip_sign s = (neg, r) \<Longrightarrow>
     (neg \<longrightarrow> Suc (length r) = length s \<and> CHR ''-'' \<in> set s) \<and> length r \<le> length s"
  by (auto simp: strip_sign_def split: list.splits if_splits)

lemma py_int_bound:
  assumes "py_int 16 s = Some v" and "length s \<le> 2"
  shows "- 15 \<le> v \<and> v \<le> 255 \<and> (CHR ''-'' \<notin> set s \<longrightarrow> 0 \<le> v)"
proof -
  obtain neg s2 where ss: "strip_sign (dropWhile py_isspace s) = (neg, s2)"
    by (cases "strip_sign (dropWhile py_isspace s)")
  define ds where "ds = takeWhile (is_digit_char 16) (strip_0x 16 s2)"
  from assms(1) ss obtain n where n: "digits 16 ds 0 False = Some n"
    and v: "v = (if neg then - int n else int n)"
    by (auto simp: py_int_def Let_def ds_def split: if_splits option.splits)
  have l1: "length (dropWhile py_isspace s) \<le> length s" by (rule length_dropWhile_le)
  have l2: "length ds \<le> length s2"
    unfolding ds_def
    using length_takeWhile_le [of "is_digit_char 16" "strip_0x 16 s2"] length_strip_0x [of 16 s2]
    by linarith
  from strip_sign_cases [OF ss] have l3: "length s2 \<le> length (dropWhile py_isspace s)"
    and l4: "neg \<Longrightarrow> Suc (length s2) = length (dropWhile py_isspace s)"
    and l5: "neg \<Longrightarrow> CHR ''-'' \<in> set (dropWhile py_isspace s)" by auto
  from digits_bound [OF _ n] have b: "n < 16 ^ length ds" by simp
  have "length ds \<le> 2" using l1 l2 l3 assms(2) by linarith
  then have "(16::nat) ^ length ds \<le> 16 ^ 2" by (intro power_increasing) auto
  with b have n256: "n < 256" by simp
  show ?thesis
  proof (cases neg)
    case False
    with v n256 show ?thesis by simp
  next
    case True
    with l4 l1 l2 assms(2) have "length ds \<le> 1" by linarith
    then have "(16::nat) ^ length ds \<le> 16 ^ 1" by (intro power_increasing) auto
    with b have "n < 16" by simp
    moreover from l5 [OF True] have "CHR ''-'' \<in> set s" by (rule set_dropWhileD)
    ultimately show ?thesis using v True by simp
  qed
qed

text \<open>
  Claim C10, as the code has it: \<^verbatim>\<open>hex_to_rgb\<close> is total and never raises (every
  \<^verbatim>\<open>ValueError\<close> of the conversions is caught, so the result is a plain triple). Each
  component lies between -15 and 255, and between 0 and 255 when the string holds no
  minus sign. A scheme or preset reference, and any string one of whose three
  two-character slices is rejected by \<^verbatim>\<open>int(., 16)\<close>, gives the fallback
  (128, 128, 128).
\<close>

theorem hex_to_rgb_total:
  "(\<exists>r g b. hex_to_rgb s = (r, g, b)
        \<and> - 15 \<le> r \<and> r \<le> 255 \<and> - 15 \<le> g \<and> g \<le> 255 \<and> - 15 \<le> b \<and> b \<le> 255
        \<and> (CHR ''-'' \<notin> set s \<longrightarrow> 0 \<le> r \<and> 0 \<le> g \<and> 0 \<le> b))
   \<and> (startswith (strip_hash s) ''scheme:'' \<or> startswith (strip_hash s) ''preset:''
        \<longrightarrow> hex_to_rgb s = (128, 128, 128))
   \<and> (py_int 16 (take 2 (strip_hash s)) = None
        \<or> py_int 16 (take 2 (drop 2 (strip_hash s))) = None
        \<or> py_int 16 (take 2 (drop 4 (strip_hash s))) = None
        \<longrightarrow> hex_to_rgb s = (128, 128, 128))"
proof -
  define h where "h = strip_hash s"
  have sub: "set (take 2 (drop k h)) \<subseteq> set s" for k
  proof -
    have "set (take 2 (drop k h)) \<subseteq> set h"
      by (meson set_take_subset set_drop_subset subset_trans)
    moreover have "set h \<subseteq> set s"
      by (auto simp: h_def strip_hash_def dest: in_set_dropD)
    ultimately show ?thesis by blast
  qed
  have b: "- 15 \<le> v \<and> v \<le> 255 \<and> (CHR ''-'' \<notin> set s \<longrightarrow> 0 \<le> v)"
    if "py_int 16 (take 2 (drop k h)) = Some v" for k v
    using py_int_bound [OF that] sub [of k] by auto
  have 1: "\<exists>r g b. hex_to_rgb s = (r, g, b)
        \<and> - 15 \<le> r \<and> r \<le> 255 \<and> - 15 \<le> g \<and> g \<le> 255 \<and> - 15 \<le> b \<and> b \<le> 255
        \<and> (CHR ''-'' \<notin> set s \<longrightarrow> 0 \<le> r \<and> 0 \<le> g \<and> 0 \<le> b)"
  proof (cases "startswith h ''scheme:'' \<or> startswith h ''preset:''")
    case True
    then have "hex_to_rgb s = (128, 128, 128)"
      by (auto simp: hex_to_rgb_def Let_def h_def strip_hash_def)
    then show ?thesis by simp
  next
    case False
    show ?thesis
    proof (cases "\<exists>r g b. py_int 16 (take 2 (drop 0 h)) = Some r
        \<and> py_int 16 (take 2 (drop 2 h)) = Some g \<and> py_int 16 (take 2 (drop 4 h)) = Some b")
      case True
      then obtain r g b' where r: "py_int 16 (take 2 (drop 0 h)) = Some r"
        and g: "py_int 16 (take 2 (drop 2 h)) = Some g"
        and b': "py_int 16 (take 2 (drop 4 h)) = Some b'" by blast
      from False r g b' have "hex_to_rgb s = (r, g, b')"
        by (auto simp: hex_to_rgb_def Let_def h_def strip_hash_def)
      with b [OF r] b [OF g] b [OF b'] show ?thesis by simp
    next
      case False
      then have "hex_to_rgb s = (128, 128, 128)"
        by (auto simp: hex_to_rgb_def Let_def h_def strip_hash_def split: option.splits)
      then show ?thesis by simp
    qed
  qed
  have 2: "startswith h ''scheme:'' \<or> startswith h ''preset:''
      \<longrightarrow> hex_to_rgb s = (128, 128, 128)"
    by (auto simp: hex_to_rgb_def Let_def h_def strip_hash_def)
  have 3: "py_int 16 (take 2 h) = None \<or> py_int 16 (take 2 (drop 2 h)) = None
        \<or> py_int 16 (take 2 (drop 4 h)) = None \<longrightarrow> hex_to_rgb s = (128, 128, 128)"
    by (auto simp: hex_to_rgb_def Let_def h_def strip_hash_def split: option.splits)
  from 1 2 3 show ?thesis unfolding h_def by blast
qed

lemmas py_int_defs =
  py_int_def strip_sign_def strip_0x_def is_digit_char_def digit_val_def py_isspace_def
  startswith_def

theorem hex_to_rgb_total_witness:
  "hex_to_rgb ''#FF8000'' = (255, 128, 0) \<and> hex_to_rgb ''preset:red'' = (128, 128, 128)
   \<and> hex_to_rgb ''#12'' = (128, 128, 128)"
proof -
  have a: "hex_to_rgb ''#FF8000'' = (255, 128, 0)"
    by (simp add: hex_to_rgb_def py_int_defs)
  have p: "startswith (strip_hash ''preset:red'') ''preset:''"
    by (simp add: strip_hash_def startswith_def)
  have n: "py_int 16 (take 2 (drop 2 (strip_hash ''#12''))) = None"
    by (simp add: strip_hash_def py_int_defs)
  from hex_to_rgb_total [of "''preset:red''"] p
  have b: "hex_to_rgb ''preset:red'' = (128, 128, 128)" by blast
  from hex_to_rgb_total [of "''#12''"] n
  have c: "hex_to_rgb ''#12'' = (128, 128, 128)" by blast
  from a b c show ?thesis by blast
qed

text \<open>
  Claim C10 as stated fails: a slice may carry a sign, so \<open>#-1-1-1\<close> gives three
  components below 0, and \<open>+1+1+1\<close>, which is not six hexadecimal digits, does not
  give the fallback.
\<close>

theorem hex_to_rgb_counterexample:
  "hex_to_rgb ''#-1-1-1'' = (- 1, - 1, - 1) \<and> hex_to_rgb ''+1+1+1'' = (1, 1, 1)"
  by (simp add: hex_to_rgb_def py_int_defs)


lemmas path_defs = find_elem_def findall_def descendants_def get_opt_def get_attr_def


section \<open>Properties: slide role\<close>

text \<open>
  Claim C6: the role of a slide follows the ordered rules, the first that matches wins:
  index 1 gives \<open>title_slide\<close>; else at least one chart gives \<open>data_visualization\<close>;
  else at least one table gives \<open>table_content\<close>; else more than two pictures give
  \<open>image_gallery\<close>; else \<open>content\<close>. So a slide that is not the first and holds one
  chart and three pictures is a \<open>data_visualization\<close>.
\<close>

theorem infer_slide_role_rules:
  "infer_slide_role r i =
     (if i = 1 then ''title_slide''
      else if 1 \<le> count_tag ''c:chart'' r then ''data_visualization''
      else if 1 \<le> count_tag ''a:tbl'' r then ''table_content''
      else if 2 < count_tag ''p:pic'' r then ''image_gallery''
      else ''content'')
   \<and> (i \<noteq> 1 \<and> count_tag ''c:chart'' r = 1 \<and> count_tag ''p:pic'' r = 3 \<longrightarrow>
        infer_slide_role r i = ''data_visualization'')"
  by (auto simp: infer_slide_role_def count_tag_def shape_tree_nodes_def findall_def
      Suc_le_eq split: option.splits)

theorem infer_slide_role_rules_witness:
  "infer_slide_role
     (Element ''p:sld'' [] None
       [Element ''p:cSld'' [] None
         [Element ''p:spTree'' [] None
           [Element ''p:pic'' [] None [],
            Element ''p:graphicFrame'' [] None
              [Element ''a:graphic'' [] None
                [Element ''a:graphicData'' [] None [Element ''c:chart'' [] None []]]],
            Element ''p:pic'' [] None [],
            Element ''p:pic'' [] None []]]]) 2 = ''data_visualization''"
proof -
  let ?r = "Element ''p:sld'' [] None
       [Element ''p:cSld'' [] None
         [Element ''p:spTree'' [] None
           [Element ''p:pic'' [] None [],
            Element ''p:graphicFrame'' [] None
              [Element ''a:graphic'' [] None
                [Element ''a:graphicData'' [] None [Element ''c:chart'' [] None []]]],
            Element ''p:pic'' [] None [],
            Element ''p:pic'' [] None []]]]"
  have "(2::int) \<noteq> 1 \<and> count_tag ''c:chart'' ?r = 1 \<and> count_tag ''p:pic'' ?r = 3"
    by (simp add: count_tag_def shape_tree_nodes_def path_defs)
  with infer_slide_role_rules [of ?r 2] show ?thesis by blast
qed

section \<open>Properties: numbers\<close>

lemma digit_char_code: "k < 10 \<Longrightarrow> (of_char (digit_char k) :: nat) = 48 + k"
proof -
  assume "k < 10"
  then have "k \<in> {0, 1, 2, 3, 4, 5, 6, 7, 8, 9}" by auto
  then show ?thesis by (auto simp: digit_char_def)
qed

lemma is_dec_digit_char: "k < 10 \<Longrightarrow> is_dec (digit_char k)"
  by (simp add: is_dec_def digit_char_code)

lemma is_dec_str_nat: "list_all is_dec (str_nat n)"
proof (induction n rule: str_nat.induct)
  case (1 n)
  show ?case
  proof (cases "n < 10")
    case True
    then show ?thesis by (subst str_nat.simps) (simp add: is_dec_digit_char)
  next
    case False
    with 1 show ?thesis by (subst str_nat.simps) (simp add: is_dec_digit_char)
  qed
qed

lemma str_nat_nonempty: "str_nat n \<noteq> []"
  by (subst str_nat.simps) simp

lemma foldl_str_nat: "foldl dec_step 0 (str_nat n) = n"
proof (induction n rule: str_nat.induct)
  case (1 n)
  show ?case
  proof (cases "n < 10")
    case True
    then show ?thesis
      by (subst str_nat.simps) (simp add: dec_step_def digit_char_code)
  next
    case False
    with 1 have "foldl dec_step 0 (str_nat (n div 10)) = n div 10" by simp
    with False show ?thesis
      by (subst str_nat.simps) (simp add: dec_step_def digit_char_code)
  qed
qed


lemma dec_facts:
  assumes "is_dec c"
  shows "digit_val 10 c = Some (of_char c - 48)" "is_digit_char 10 c" "c \<noteq> CHR ''_''"
    "\<not> py_isspace c" "c \<noteq> CHR ''.''" "c \<noteq> CHR ''+''" "c \<noteq> CHR ''-''"
  using assms by (auto simp: is_dec_def digit_val_def is_digit_char_def py_isspace_def Let_def)

lemma digits_dec:
  "list_all is_dec xs \<Longrightarrow>
     digits 10 xs acc prev =
       (if xs = [] then (if prev then Some acc else None) else Some (foldl dec_step acc xs))"
proof (induction xs arbitrary: acc prev)
  case Nil
  then show ?case by simp
next
  case (Cons c cs)
  then have c: "is_dec c" and cs: "list_all is_dec cs" by simp_all
  show ?case
    using Cons.IH [OF cs, of "10 * acc + (of_char c - 48)" True] dec_facts(1,3) [OF c]
    by (cases cs) (simp_all add: dec_step_def)
qed




lemma py_int_str_nat: "py_int 10 (str_nat n) = Some (int n)"
proof -
  let ?s = "str_nat n"
  let ?P = "is_digit_char 10"
  obtain c cs where s: "?s = c # cs" using str_nat_nonempty [of n] by (cases ?s) auto
  have all: "list_all is_dec ?s" by (rule is_dec_str_nat)
  with s have c: "is_dec c" by simp
  have P: "\<And>x. x \<in> set ?s \<Longrightarrow> ?P x" using all dec_facts(2) by (auto simp: list_all_iff)
  have sign: "strip_sign (dropWhile py_isspace ?s) = (False, ?s)"
    using dec_facts(4,6,7) [OF c] by (simp add: s strip_sign_def)
  have tw: "takeWhile ?P ?s = ?s" using P by (simp add: takeWhile_eq_all_conv)
  have dw: "dropWhile ?P ?s = []" using P by (simp add: dropWhile_eq_Nil_conv)
  have us: "\<not> startswith ?s ''_''"
    using dec_facts(3) [OF c] by (simp add: s startswith_def)
  have d: "digits 10 ?s 0 False = Some n"
    using str_nat_nonempty [of n] by (simp add: digits_dec [OF all] foldl_str_nat)
  show ?thesis
    unfolding py_int_def sign
    by (simp add: strip_0x_def tw dw us d)
qed

section \<open>Properties: the passes over a slide\<close>

lemma bind_err_Inr: "bind_err m f = Inr y \<longleftrightarrow> (\<exists>v. m = Inr v \<and> f v = Inr y)"
  by (cases m) (auto simp: bind_err_def)

lemma shape_element:
  assumes "extract_shape_element lib zf sf n z = Inr r"
  shows "(r = None \<longleftrightarrow> \<not> has_child ''p:nvSpPr'' n)
    \<and> (\<forall>e. r = Some e \<longrightarrow> get_opt e ''z_order'' = Some (str_nat z) \<and> type_rank e = 0)"
  using assms
  by (auto simp: extract_shape_element_def has_child_def bind_err_Inr Let_def get_opt_def
      type_rank_def split: option.splits)

lemma picture_element:
  assumes "extract_picture_element lib zf sf n z = Inr r"
  shows "(r = None \<longleftrightarrow> \<not> has_child ''p:nvPicPr'' n)
    \<and> (\<forall>e. r = Some e \<longrightarrow> get_opt e ''z_order'' = Some (str_nat z) \<and> type_rank e = 1)"
  using assms
  by (auto simp: extract_picture_element_def has_child_def bind_err_Inr Let_def get_opt_def
      type_rank_def split: option.splits)

lemma graphic_frame:
  assumes "extract_graphic_frame lib zf sf n z = Inr r"
  shows "r \<noteq> None
    \<and> (\<forall>e. r = Some e \<longrightarrow> get_opt e ''z_order'' = Some (str_nat z) \<and> type_rank e = 2)"
  using assms
  by (auto simp: extract_graphic_frame_def extract_chart_element_def extract_table_element_def
      bind_err_Inr get_opt_def type_rank_def split: if_splits)

lemma group_element:
  assumes "extract_group_element lib zf sf n z = Inr r"
  shows "r \<noteq> None
    \<and> (\<forall>e. r = Some e \<longrightarrow> get_opt e ''z_order'' = Some (str_nat z) \<and> type_rank e = 3)"
proof -
  obtain err c kids where p:
    "extract_pass (extract_shape_element lib zf sf) (findall ''p:sp'' n) 1 [] = (err, c, kids)"
    by (cases "extract_pass (extract_shape_element lib zf sf) (findall ''p:sp'' n) 1 []")
  show ?thesis
    using assms p
    by (cases err) (auto simp: extract_group_element_def bind_err_Inr get_opt_def type_rank_def)
qed

lemma extract_pass_appends:
  assumes "extract_pass ex ns z acc = (err, z', acc')"
    and "\<forall>n z r. ex n z = Inr r \<longrightarrow> (r = None \<longleftrightarrow> \<not> kept n)
          \<and> (\<forall>e. r = Some e \<longrightarrow> get_opt e ''z_order'' = Some (str_nat z) \<and> type_rank e = k)"
  shows "\<exists>new. acc' = acc @ new \<and> z' = z + length new
      \<and> z_orders new = map (\<lambda>i. Some (str_nat i)) [z..<z + length new]
      \<and> (\<forall>e\<in>set new. type_rank e = k)
      \<and> (err = None \<longrightarrow> length new = length (filter kept ns))"
  using assms(1)
proof (induction ns arbitrary: z acc)
  case Nil
  then show ?case by (simp add: z_orders_def)
next
  case (Cons n ns)
  show ?case
  proof (cases "ex n z")
    case (Inl e)
    with Cons.prems show ?thesis by (auto simp: z_orders_def)
  next
    case (Inr r)
    with assms(2) have facts: "(r = None \<longleftrightarrow> \<not> kept n)
          \<and> (\<forall>e. r = Some e \<longrightarrow> get_opt e ''z_order'' = Some (str_nat z) \<and> type_rank e = k)"
      by blast
    show ?thesis
    proof (cases r)
      case None
      with Inr Cons.prems have "extract_pass ex ns z acc = (err, z', acc')" by simp
      from Cons.IH [OF this] None facts show ?thesis by auto
    next
      case (Some e)
      with Inr Cons.prems have "extract_pass ex ns (z + 1) (acc @ [e]) = (err, z', acc')" by simp
      from Cons.IH [OF this] obtain new where new: "acc' = (acc @ [e]) @ new"
        "z' = z + 1 + length new"
        "z_orders new = map (\<lambda>i. Some (str_nat i)) [z + 1..<z + 1 + length new]"
        "\<forall>e\<in>set new. type_rank e = k" "err = None \<longrightarrow> length new = length (filter kept ns)"
        by blast
      from Some facts have e: "get_opt e ''z_order'' = Some (str_nat z)" "type_rank e = k" "kept n"
        by auto
      have "z < z + length (e # new)" by simp
      from upt_conv_Cons [OF this]
      have "[z..<z + length (e # new)] = z # [z + 1..<z + 1 + length new]"
        by (simp del: upt_Suc)
      then have "z_orders (e # new) = map (\<lambda>i. Some (str_nat i)) [z..<z + length (e # new)]"
        using new(3) e(1) by (simp add: z_orders_def)
      with new e show ?thesis
        by (intro exI [of _ "e # new"]) auto
    qed
  qed
qed

lemma then_pass_appends:
  assumes "then_pass ex ns (err0, z, acc) = (err, z', acc')"
    and "\<forall>n z r. ex n z = Inr r \<longrightarrow> (r = None \<longleftrightarrow> \<not> kept n)
          \<and> (\<forall>e. r = Some e \<longrightarrow> get_opt e ''z_order'' = Some (str_nat z) \<and> type_rank e = k)"
  shows "\<exists>new. acc' = acc @ new \<and> z' = z + length new
      \<and> z_orders new = map (\<lambda>i. Some (str_nat i)) [z..<z + length new]
      \<and> (\<forall>e\<in>set new. type_rank e = k)
      \<and> (err = None \<longrightarrow> err0 = None \<and> length new = length (filter kept ns))"
proof (cases err0)
  case None
  with assms(1) have "extract_pass ex ns z acc = (err, z', acc')"
    by (simp add: then_pass_def)
  from extract_pass_appends [OF this assms(2)] None show ?thesis by blast
next
  case (Some e)
  with assms(1) show ?thesis by (auto simp: then_pass_def z_orders_def)
qed

lemma z_orders_append:
  assumes "z_orders a = map f [i..<i + length a]"
    and "z_orders b = map f [i + length a..<i + length a + length b]"
  shows "z_orders (a @ b) = map f [i..<i + length (a @ b)]"
proof -
  have "[i..<i + length a + length b] = [i..<i + length a] @ [i + length a..<i + length a + length b]"
    by (rule upt_add_eq_append) simp
  then have "[i..<i + length (a @ b)] = [i..<i + length a] @ [i + length a..<i + length a + length b]"
    by (simp only: length_append add.assoc)
  with assms show ?thesis by (simp add: z_orders_def)
qed

lemma slide_passes_shape:
  assumes "slide_passes lib zf sf t = (err, z, els)"
  shows "\<exists>a b c d. els = a @ b @ c @ d \<and> z = 1 + length els
      \<and> z_orders els = map (\<lambda>i. Some (str_nat i)) [1..<1 + length els]
      \<and> (\<forall>e\<in>set a. type_rank e = 0) \<and> (\<forall>e\<in>set b. type_rank e = 1)
      \<and> (\<forall>e\<in>set c. type_rank e = 2) \<and> (\<forall>e\<in>set d. type_rank e = 3)
      \<and> (err = None \<longrightarrow>
            length a = length (filter (has_child ''p:nvSpPr'') (findall ''p:sp'' t))
          \<and> length b = length (filter (has_child ''p:nvPicPr'') (findall ''p:pic'' t))
          \<and> length c = length (findall ''p:graphicFrame'' t)
          \<and> length d = length (findall ''p:grpSp'' t))"
proof -
  let ?f = "\<lambda>i. Some (str_nat i)"
  obtain e1 z1 a where p1:
    "extract_pass (extract_shape_element lib zf sf) (findall ''p:sp'' t) 1 [] = (e1, z1, a)"
    by (cases "extract_pass (extract_shape_element lib zf sf) (findall ''p:sp'' t) 1 []")
  obtain e2 z2 ab where p2:
    "then_pass (extract_picture_element lib zf sf) (findall ''p:pic'' t) (e1, z1, a) = (e2, z2, ab)"
    by (cases "then_pass (extract_picture_element lib zf sf) (findall ''p:pic'' t) (e1, z1, a)")
  obtain e3 z3 abc where p3:
    "then_pass (extract_graphic_frame lib zf sf) (findall ''p:graphicFrame'' t) (e2, z2, ab)
       = (e3, z3, abc)"
    by (cases "then_pass (extract_graphic_frame lib zf sf) (findall ''p:graphicFrame'' t)
                 (e2, z2, ab)")
  from assms p1 p2 p3 have p4:
    "then_pass (extract_group_element lib zf sf) (findall ''p:grpSp'' t) (e3, z3, abc)
       = (err, z, els)"
    by (simp add: slide_passes_def)
  have s1: "\<forall>n z r. extract_shape_element lib zf sf n z = Inr r \<longrightarrow>
      (r = None \<longleftrightarrow> \<not> has_child ''p:nvSpPr'' n)
      \<and> (\<forall>e. r = Some e \<longrightarrow> get_opt e ''z_order'' = Some (str_nat z) \<and> type_rank e = 0)"
    by (intro allI impI) (rule shape_element)
  have s2: "\<forall>n z r. extract_picture_element lib zf sf n z = Inr r \<longrightarrow>
      (r = None \<longleftrightarrow> \<not> has_child ''p:nvPicPr'' n)
      \<and> (\<forall>e. r = Some e \<longrightarrow> get_opt e ''z_order'' = Some (str_nat z) \<and> type_rank e = 1)"
    by (intro allI impI) (rule picture_element)
  have s3: "\<forall>n z r. extract_graphic_frame lib zf sf n z = Inr r \<longrightarrow>
      (r = None \<longleftrightarrow> \<not> True)
      \<and> (\<forall>e. r = Some e \<longrightarrow> get_opt e ''z_order'' = Some (str_nat z) \<and> type_rank e = 2)"
    using graphic_frame by simp
  have s4: "\<forall>n z r. extract_group_element lib zf sf n z = Inr r \<longrightarrow>
      (r = None \<longleftrightarrow> \<not> True)
      \<and> (\<forall>e. r = Some e \<longrightarrow> get_opt e ''z_order'' = Some (str_nat z) \<and> type_rank e = 3)"
    using group_element by simp
  from extract_pass_appends [OF p1 s1]
  have A: "z1 = 1 + length a" "z_orders a = map ?f [1..<1 + length a]" "\<forall>e\<in>set a. type_rank e = 0"
    "e1 = None \<longrightarrow> length a = length (filter (has_child ''p:nvSpPr'') (findall ''p:sp'' t))"
    by auto
  from then_pass_appends [OF p2 s2]
  obtain b where B: "ab = a @ b" "z2 = z1 + length b" "z_orders b = map ?f [z1..<z1 + length b]"
    "\<forall>e\<in>set b. type_rank e = 1"
    "e2 = None \<longrightarrow> e1 = None
       \<and> length b = length (filter (has_child ''p:nvPicPr'') (findall ''p:pic'' t))"
    by blast
  from then_pass_appends [OF p3 s3]
  obtain c where C: "abc = ab @ c" "z3 = z2 + length c" "z_orders c = map ?f [z2..<z2 + length c]"
    "\<forall>e\<in>set c. type_rank e = 2"
    "e3 = None \<longrightarrow> e2 = None \<and> length c = length (findall ''p:graphicFrame'' t)"
    by auto
  from then_pass_appends [OF p4 s4]
  obtain d where D: "els = abc @ d" "z = z3 + length d" "z_orders d = map ?f [z3..<z3 + length d]"
    "\<forall>e\<in>set d. type_rank e = 3"
    "err = None \<longrightarrow> e3 = None \<and> length d = length (findall ''p:grpSp'' t)"
    by auto
  have z2: "z2 = 1 + length (a @ b)" using A(1) B(2) by simp
  have z3: "z3 = 1 + length ((a @ b) @ c)" using z2 C(2) by simp
  have zab: "z_orders (a @ b) = map ?f [1..<1 + length (a @ b)]"
    using A(2) B(3) unfolding A(1) by (rule z_orders_append)
  have zabc: "z_orders ((a @ b) @ c) = map ?f [1..<1 + length ((a @ b) @ c)]"
    using zab C(3) unfolding z2 by (rule z_orders_append)
  have zall: "z_orders (((a @ b) @ c) @ d) = map ?f [1..<1 + length (((a @ b) @ c) @ d)]"
    using zabc D(3) unfolding z3 by (rule z_orders_append)
  have els: "els = a @ b @ c @ d" using B(1) C(1) D(1) by simp
  have zz: "z = 1 + length els" using A(1) B(2) C(2) D(2) els by simp
  from zall els have zo: "z_orders els = map ?f [1..<1 + length els]" by simp
  from els zz zo A(3,4) B(4,5) C(4,5) D(4,5) show ?thesis by blast
qed

lemma passes_dropped_shape:
  "slide_passes example_lib [] ''ppt/slides/slide1.xml''
     tree_dropped_shape
   = (None, 2,
      [Element ''element'' [(''id'', ''7''), (''type'', ''textbox''), (''z_order'', ''1'')] None
         [Element ''fill'' [(''type'', ''none'')] None [],
          Element ''stroke'' [(''width'', ''0'')] None []]])"
  by code_simp

lemma elements_nested_shape:
  "extract_slide_elements example_lib [] ''ppt/slides/slide1.xml'' slide_nested_shape
   = ([Element ''element'' [(''id'', ''7''), (''type'', ''textbox''), (''z_order'', ''1'')] None
         [Element ''fill'' [(''type'', ''none'')] None [],
          Element ''stroke'' [(''width'', ''0'')] None []],
       Element ''element'' [(''id'', ''2''), (''type'', ''picture''), (''z_order'', ''2'')] None [],
       Element ''element'' [(''type'', ''group''), (''z_order'', ''3'')] None
         [Element ''children'' [] None
            [Element ''element'' [(''id'', ''7''), (''type'', ''textbox''), (''z_order'', ''1'')] None
               [Element ''fill'' [(''type'', ''none'')] None [],
                Element ''stroke'' [(''width'', ''0'')] None []]]]],
      None)"
  by code_simp

text \<open>
  Claim C1, as the code has it: the shared counter is incremented exactly when an
  extractor returns an element. After the passes it is 1 plus the number of elements
  emitted; when no extractor raised, that is the number of shapes and pictures that
  carry their naming element plus the number of graphic frames and groups, so a child
  that is dropped consumes no z-order slot.
\<close>

theorem z_order_counter:
  "slide_passes lib zf slide_file sp_tree = (err, z_order, elements) \<Longrightarrow>
     z_order = 1 + length elements
     \<and> (err = None \<longrightarrow>
          z_order = 1 + length (filter (has_child ''p:nvSpPr'') (findall ''p:sp'' sp_tree))
                      + length (filter (has_child ''p:nvPicPr'') (findall ''p:pic'' sp_tree))
                      + length (findall ''p:graphicFrame'' sp_tree)
                      + length (findall ''p:grpSp'' sp_tree))"
  using slide_passes_shape [of lib zf slide_file sp_tree err z_order elements] by auto

theorem z_order_counter_witness:
  "length (filter (has_child ''p:nvSpPr'') (findall ''p:sp'' tree_dropped_shape))
   + length (filter (has_child ''p:nvPicPr'') (findall ''p:pic'' tree_dropped_shape))
   + length (findall ''p:graphicFrame'' tree_dropped_shape)
   + length (findall ''p:grpSp'' tree_dropped_shape) = 1"
  using z_order_counter [OF passes_dropped_shape] by simp

text \<open>
  Claim C1 as stated fails: of two shapes the first is dropped, and the second is
  numbered 1, not 2; the counter ends at 2, not 3.
\<close>

theorem z_order_counter_counterexample:
  "slide_passes example_lib [] ''ppt/slides/slide1.xml''
     tree_dropped_shape
   = (None, 2,
      [Element ''element'' [(''id'', ''7''), (''type'', ''textbox''), (''z_order'', ''1'')] None
         [Element ''fill'' [(''type'', ''none'')] None [],
          Element ''stroke'' [(''width'', ''0'')] None []]])"
  by (rule passes_dropped_shape)

text \<open>
  Claim C2: the z-order attributes of the elements appended to the \<open>elements\<close> node of
  a slide are 1, 2, ..., n in the order of the elements (as the texts written and as the
  numbers read back), whatever the source says, and also when an exception ended the
  walk.
\<close>

lemma z_orders_numbers:
  "z_orders els = map (\<lambda>i. Some (str_nat i)) ns \<Longrightarrow>
     z_order_numbers els = map (\<lambda>i. Some (int i)) ns"
proof (induction els arbitrary: ns)
  case Nil
  then show ?case by (simp add: z_orders_def z_order_numbers_def)
next
  case (Cons e els)
  then obtain k ks where ns: "ns = k # ks" by (cases ns) (auto simp: z_orders_def)
  with Cons.prems have e: "get_opt e ''z_order'' = Some (str_nat k)"
    and r: "z_orders els = map (\<lambda>i. Some (str_nat i)) ks"
    by (simp_all add: z_orders_def)
  from Cons.IH [OF r] e ns show ?case
    by (simp add: z_order_numbers_def py_int_str_nat)
qed

theorem z_orders_contiguous:
  "extract_slide_elements lib zf slide_file slide_root = (elements, err) \<Longrightarrow>
     z_orders elements = map (\<lambda>i. Some (str_nat i)) [1..<1 + length elements]
     \<and> z_order_numbers elements = map (\<lambda>i. Some (int i)) [1..<1 + length elements]"
proof -
  assume a: "extract_slide_elements lib zf slide_file slide_root = (elements, err)"
  have "z_orders elements = map (\<lambda>i. Some (str_nat i)) [1..<1 + length elements]"
  proof (cases "find_elem ''p:spTree'' slide_root")
    case None
    with a show ?thesis by (simp add: extract_slide_elements_def z_orders_def)
  next
    case (Some t)
    obtain z where "slide_passes lib zf slide_file t = (err, z, elements)"
      using a Some
      by (cases "slide_passes lib zf slide_file t") (simp add: extract_slide_elements_def)
    from slide_passes_shape [OF this] show ?thesis by blast
  qed
  with z_orders_numbers [OF this] show ?thesis by blast
qed

theorem z_orders_contiguous_witness:
  "z_orders (fst (extract_slide_elements example_lib [] ''ppt/slides/slide1.xml'' slide_nested_shape))
   = [Some ''1'', Some ''2'', Some ''3'']
   \<and> z_order_numbers
       (fst (extract_slide_elements example_lib [] ''ppt/slides/slide1.xml'' slide_nested_shape))
     = [Some 1, Some 2, Some 3]"
proof -
  have "[1..<1 + 3] = [1, 2, 3::nat]" by (simp add: upt_rec)
  with z_orders_contiguous [OF elements_nested_shape] show ?thesis
    unfolding elements_nested_shape by (simp add: str_nat.simps digit_char_def)
qed





section \<open>Properties: computed features\<close>

lemma total_area_single:
  "element_area e = Inr a \<Longrightarrow> total_area [e] 0 = Inr a"
  by (simp add: bind_err_def)








section \<open>Properties: statistics and the run\<close>

lemma increment_keys:
  "map fst (increment k d) = (if k \<in> fst ` set d then map fst d else map fst d @ [k])"
  by (induction d) (auto split: if_splits)

lemma increment_lookup:
  "map_of (increment k d) c =
     (if c = k then Some (case map_of d k of None \<Rightarrow> 1 | Some n \<Rightarrow> n + 1) else map_of d c)"
  by (induction d) auto

lemma tally_snoc: "tally (ks @ [k]) = increment k (tally ks)"
  by (simp add: tally_def)

lemma tally_keys: "map fst (tally ks) = rev (remdups (rev ks))"
proof (induction ks rule: rev_induct)
  case Nil
  show ?case by (simp add: tally_def)
next
  case (snoc k ks)
  have "fst ` set (tally ks) = set ks"
    using snoc by (metis image_set set_remdups set_rev)
  with snoc show ?case by (simp add: tally_snoc increment_keys)
qed

lemma tally_counts:
  "map_of (tally ks) c = (if c \<in> set ks then Some (count_list ks c) else None)"
proof (induction ks rule: rev_induct)
  case Nil
  show ?case by (simp add: tally_def)
next
  case (snoc k ks)
  then show ?case by (auto simp: tally_snoc increment_lookup)
qed

text \<open>
  The ranking holds at most ten colours, in descending order of their counts; the sort
  keeps colours of equal count in the order of their first occurrence; a count is the
  number of occurrences among the colours counted, and no empty value and no scheme
  reference is among them.
\<close>

lemma top_colors_ranking:
  "length (top_colors t) \<le> 10"
  "sorted (map (\<lambda>(color, count). - int count) (top_colors t))"
  "filter (\<lambda>p. snd p = n) (sort_key (\<lambda>(color, count). - int count) (tally (literal_colors t)))
     = filter (\<lambda>p. snd p = n) (tally (literal_colors t))"
  "(c, n) \<in> set (top_colors t) \<Longrightarrow> n = count_list (literal_colors t) c \<and> c \<in> set (literal_colors t)"
  "c \<in> set (literal_colors t) \<Longrightarrow> c \<noteq> [] \<and> \<not> startswith c ''scheme:''"
proof -
  let ?f = "\<lambda>(color, count). - int count :: int"
  show "length (top_colors t) \<le> 10" by (simp add: top_colors_def)
  have "sorted (map ?f (sort_key ?f (tally (literal_colors t))))" by (rule sorted_sort_key)
  then have "sorted (take 10 (map ?f (sort_key ?f (tally (literal_colors t)))))"
    by (rule sorted_wrt_take)
  then show "sorted (map ?f (top_colors t))" by (simp add: top_colors_def take_map)
  have e: "(\<lambda>p. snd p = n) = (\<lambda>p. ?f p = - int n)" by (auto simp: fun_eq_iff)
  show "filter (\<lambda>p. snd p = n) (sort_key ?f (tally (literal_colors t)))
     = filter (\<lambda>p. snd p = n) (tally (literal_colors t))"
    unfolding e by (rule sort_key_stable)
  show "n = count_list (literal_colors t) c \<and> c \<in> set (literal_colors t)"
    if "(c, n) \<in> set (top_colors t)"
  proof -
    from that have "(c, n) \<in> set (tally (literal_colors t))"
      by (auto simp: top_colors_def dest: in_set_takeD)
    moreover have "distinct (map fst (tally (literal_colors t)))"
      by (simp add: tally_keys)
    ultimately have "map_of (tally (literal_colors t)) c = Some n" by simp
    then show ?thesis by (auto simp: tally_counts split: if_splits)
  qed
  show "c \<noteq> [] \<and> \<not> startswith c ''scheme:''" if "c \<in> set (literal_colors t)"
    using that by (auto simp: literal_colors_def)
qed

text \<open>
  Claim C8 at a failing input: the colours of the runs are a preset reference, a scheme
  reference, red, green, green and the preset reference again. The scheme reference is
  left out, the preset reference is not: it is counted twice, it leads the ranking, and it
  is part of the total of 5 that the shares are taken of.
\<close>

theorem most_used_colors_counts_preset:
  "most_used_colors colored_deck =
     Element ''most_used_colors'' [] None
       [Element ''color'' [(''hex'', ''preset:red''), (''count'', ''2''), (''percentage'', ''40.0'')]
          None [],
        Element ''color'' [(''hex'', ''#00FF00''), (''count'', ''2''), (''percentage'', ''40.0'')]
          None [],
        Element ''color'' [(''hex'', ''#FF0000''), (''count'', ''1''), (''percentage'', ''20.0'')]
          None []]"
  by code_simp

lemma iter_self: "e \<in> set (iter e)"
  by (cases e) simp







section \<open>Properties: geometry\<close>














end
